theory Spec2Isabelle
  imports Complex_Main "HOL-Library.Sublist"
begin

section \<open>Python strings\<close>

text \<open>
  The module \<^verbatim>\<open>src/orbit_propagation.py\<close> works on Python \<^verbatim>\<open>str\<close> values. A \<open>string\<close>
  is read here as a sequence of code points below 256 (the Latin-1 repertoire, which
  contains the ASCII alphabet TLE feeds are written in); code points from 256 on are
  outside the model.
\<close>

definition whitespace :: "char list" where
  \<comment> \<open>the code points below 256 for which \<^verbatim>\<open>str.isspace\<close> holds\<close>
  "whitespace = [CHR 0x09, CHR 0x0A, CHR 0x0B, CHR 0x0C, CHR 0x0D, CHR 0x1C, CHR 0x1D,
                 CHR 0x1E, CHR 0x1F, CHR 0x20, CHR 0x85, CHR 0xA0]"

definition is_space :: "char \<Rightarrow> bool" where
  "is_space c = (c \<in> set whitespace)"

definition strip :: "string \<Rightarrow> string" where
  \<comment> \<open>\<^verbatim>\<open>s.strip()\<close>\<close>
  "strip s = rev (dropWhile is_space (rev (dropWhile is_space s)))"

fun split_nl :: "string \<Rightarrow> string list" where
  \<comment> \<open>\<^verbatim>\<open>s.split('\n')\<close>\<close>
  "split_nl [] = [[]]"
| "split_nl (c # cs) =
     (if c = CHR 0x0A then [] # split_nl cs
      else (case split_nl cs of [] \<Rightarrow> [[c]] | l # ls \<Rightarrow> (c # l) # ls))"

definition slice :: "nat \<Rightarrow> nat \<Rightarrow> string \<Rightarrow> string" where
  \<comment> \<open>\<^verbatim>\<open>s[a:b]\<close> for constant bounds \<open>0 \<le> a \<le> b\<close>: never raises, a short string gives
      a short (possibly empty) slice\<close>
  "slice a b s = drop a (take b s)"

definition is_upper :: "char \<Rightarrow> bool" where
  \<comment> \<open>the code points below 256 that \<^verbatim>\<open>str.lower\<close> changes: A-Z and the Latin-1 capitals\<close>
  "is_upper c = (let n = (of_char c :: nat) in
     (65 \<le> n \<and> n \<le> 90) \<or> (192 \<le> n \<and> n \<le> 222 \<and> n \<noteq> 215))"

definition lower_char :: "char \<Rightarrow> char" where
  \<comment> \<open>the lower-case letter is 32 code points up: bit 5 is set\<close>
  "lower_char c =
     (if is_upper c
      then (case c of Char b0 b1 b2 b3 b4 b5 b6 b7 \<Rightarrow> Char b0 b1 b2 b3 b4 True b6 b7)
      else c)"

definition lower :: "string \<Rightarrow> string" where
  \<comment> \<open>\<^verbatim>\<open>s.lower()\<close>\<close>
  "lower s = map lower_char s"

fun contains :: "string \<Rightarrow> string \<Rightarrow> bool" where
  \<comment> \<open>\<^verbatim>\<open>sub in s\<close>\<close>
  "contains sub [] = (sub = [])"
| "contains sub (c # cs) = (prefix sub (c # cs) \<or> contains sub cs)"

section \<open>Python numbers\<close>

datatype error = ValueError | OverflowError | ZeroDivisionError

definition is_num_space :: "char \<Rightarrow> bool" where
  \<comment> \<open>what \<^verbatim>\<open>int()\<close> and \<^verbatim>\<open>float()\<close> strip from both ends of their argument: the C
      white space and the non-ASCII Unicode spaces, but not the separators 0x1C-0x1F\<close>
  "is_num_space c = (c \<in> set [CHR 0x09, CHR 0x0A, CHR 0x0B, CHR 0x0C, CHR 0x0D, CHR 0x20,
                                 CHR 0x85, CHR 0xA0])"

definition num_strip :: "string \<Rightarrow> string" where
  "num_strip s = rev (dropWhile is_num_space (rev (dropWhile is_num_space s)))"

definition is_digit :: "char \<Rightarrow> bool" where
  "is_digit c = (let n = (of_char c :: nat) in 48 \<le> n \<and> n \<le> 57)"

definition digit_val :: "char \<Rightarrow> nat" where
  "digit_val c = of_char c - 48"

definition digits_val :: "string \<Rightarrow> nat" where
  "digits_val ds = foldl (\<lambda>acc c. 10 * acc + digit_val c) 0 ds"

fun remove_underscores :: "char \<Rightarrow> string \<Rightarrow> string option" where
  \<comment> \<open>numeric literals may group digits with single underscores: an underscore is
      accepted only between two digits; \<open>prev\<close> is the character before\<close>
  "remove_underscores prev [] = (if prev = CHR ''_'' then None else Some [])"
| "remove_underscores prev (c # cs) =
     (if c = CHR ''_''
      then (if is_digit prev then remove_underscores c cs else None)
      else (if prev = CHR ''_'' \<and> \<not> is_digit c then None
            else map_option ((#) c) (remove_underscores c cs)))"

fun split_sign :: "string \<Rightarrow> bool \<times> string" where
  \<comment> \<open>an optional leading sign; the flag says whether it is a minus\<close>
  "split_sign [] = (False, [])"
| "split_sign (c # cs) =
     (if c = CHR ''-'' then (True, cs)
      else if c = CHR ''+'' then (False, cs)
      else (False, c # cs))"

definition signed_digits :: "string \<Rightarrow> int option" where
  \<comment> \<open>an optional sign and at least one digit, nothing else\<close>
  "signed_digits s =
     (let (neg, ds) = split_sign s in
      if ds \<noteq> [] \<and> list_all is_digit ds
      then Some (if neg then - int (digits_val ds) else int (digits_val ds))
      else None)"

definition py_int :: "string \<Rightarrow> int option" where
  \<comment> \<open>\<^verbatim>\<open>int(s)\<close>; \<open>None\<close> is the ValueError\<close>
  "py_int s =
     (case remove_underscores (CHR 0x00) (num_strip s) of
        None \<Rightarrow> None
      | Some u \<Rightarrow> signed_digits u)"

text \<open>
  A Python float is modelled by the real number it stands for, or by one of the three
  special values, which \<^verbatim>\<open>float()\<close> reads from the words inf, infinity and nan. Arithmetic
  on finite values is exact: the rounding of IEEE doubles, the overflow of a finite result
  and its underflow to zero are outside the model, and so is the sign of a zero.
\<close>

datatype pyfloat = Fin real | PInf | NInf | NaN

definition decimal_value :: "bool \<Rightarrow> string \<Rightarrow> string \<Rightarrow> int \<Rightarrow> real" where
  \<comment> \<open>sign, integer digits, fraction digits, exponent\<close>
  "decimal_value neg ip fp e =
     (let m = real (digits_val (ip @ fp));
          k = e - int (length fp);
          v = (if 0 \<le> k then m * 10 ^ nat k else m / 10 ^ nat (- k))
      in if neg then - v else v)"

definition parse_exponent :: "string \<Rightarrow> int option" where
  \<comment> \<open>what follows the mantissa: nothing, or \<^verbatim>\<open>e\<close> with a signed integer\<close>
  "parse_exponent r =
     (case r of
        [] \<Rightarrow> Some 0
      | c # cs \<Rightarrow> if c = CHR ''e'' \<or> c = CHR ''E'' then signed_digits cs else None)"

definition py_float :: "string \<Rightarrow> pyfloat option" where
  \<comment> \<open>\<^verbatim>\<open>float(s)\<close>; \<open>None\<close> is the ValueError\<close>
  "py_float s =
     (case remove_underscores (CHR 0x00) (num_strip s) of
        None \<Rightarrow> None
      | Some u \<Rightarrow>
          let (neg, body) = split_sign u; lb = lower body in
          if lb = ''inf'' \<or> lb = ''infinity'' then Some (if neg then NInf else PInf)
          else if lb = ''nan'' then Some NaN
          else
            let ip = takeWhile is_digit body;
                r1 = dropWhile is_digit body;
                fp = (case r1 of [] \<Rightarrow> []
                      | c # cs \<Rightarrow> if c = CHR ''.'' then takeWhile is_digit cs else []);
                r2 = (case r1 of [] \<Rightarrow> []
                      | c # cs \<Rightarrow> if c = CHR ''.'' then dropWhile is_digit cs else r1)
            in if ip = [] \<and> fp = [] then None
               else map_option (\<lambda>e. Fin (decimal_value neg ip fp e)) (parse_exponent r2))"

definition signed_inf :: "bool \<Rightarrow> pyfloat" where
  "signed_inf neg = (if neg then NInf else PInf)"

fun fmul :: "pyfloat \<Rightarrow> pyfloat \<Rightarrow> pyfloat" where
  \<comment> \<open>\<^verbatim>\<open>x * y\<close>\<close>
  "fmul NaN y = NaN"
| "fmul x NaN = NaN"
| "fmul (Fin a) (Fin b) = Fin (a * b)"
| "fmul (Fin a) y = (if a = 0 then NaN else signed_inf ((a < 0) \<noteq> (y = NInf)))"
| "fmul x (Fin b) = (if b = 0 then NaN else signed_inf ((x = NInf) \<noteq> (b < 0)))"
| "fmul x y = signed_inf ((x = NInf) \<noteq> (y = NInf))"

fun fquot :: "pyfloat \<Rightarrow> pyfloat \<Rightarrow> pyfloat" where
  \<comment> \<open>the quotient by a divisor that is not zero\<close>
  "fquot NaN y = NaN"
| "fquot x NaN = NaN"
| "fquot (Fin a) (Fin b) = Fin (a / b)"
| "fquot (Fin a) y = Fin 0"
| "fquot x (Fin b) = signed_inf ((x = NInf) \<noteq> (b < 0))"
| "fquot x y = NaN"

definition fdiv :: "pyfloat \<Rightarrow> pyfloat \<Rightarrow> error + pyfloat" where
  \<comment> \<open>\<^verbatim>\<open>x / y\<close>: a zero divisor raises, whatever the dividend\<close>
  "fdiv x y = (if y = Fin 0 then Inl ZeroDivisionError else Inr (fquot x y))"

fun fsub :: "pyfloat \<Rightarrow> pyfloat \<Rightarrow> pyfloat" where
  \<comment> \<open>\<^verbatim>\<open>x - y\<close>\<close>
  "fsub NaN y = NaN"
| "fsub x NaN = NaN"
| "fsub (Fin a) (Fin b) = Fin (a - b)"
| "fsub (Fin a) y = signed_inf (y = PInf)"
| "fsub x (Fin b) = x"
| "fsub x y = (if x = y then NaN else x)"

fun fsquare :: "pyfloat \<Rightarrow> pyfloat" where
  \<comment> \<open>\<^verbatim>\<open>x ** 2\<close>\<close>
  "fsquare (Fin a) = Fin (a ^ 2)"
| "fsquare NaN = NaN"
| "fsquare x = PInf"

fun fcbrt :: "pyfloat \<Rightarrow> pyfloat" where
  \<comment> \<open>\<^verbatim>\<open>x ** (1/3)\<close> for \<open>x\<close> not negative. Python answers a negative finite base with a
      complex number; the one call has a quotient by a square as its base.\<close>
  "fcbrt (Fin a) = Fin (a powr (1 / 3))"
| "fcbrt NaN = NaN"
| "fcbrt x = PInf"

fun flt :: "pyfloat \<Rightarrow> pyfloat \<Rightarrow> bool" where
  \<comment> \<open>\<^verbatim>\<open>x < y\<close>: false as soon as one side is NaN\<close>
  "flt NaN y = False"
| "flt x NaN = False"
| "flt (Fin a) (Fin b) = (a < b)"
| "flt x PInf = (x \<noteq> PInf)"
| "flt NInf y = (y \<noteq> NInf)"
| "flt x y = False"

definition round_half_even :: "real \<Rightarrow> int" where
  "round_half_even x =
     (let f = \<lfloor>x\<rfloor>; d = x - of_int f in
      if d < 1 / 2 then f
      else if 1 / 2 < d then f + 1
      else if even f then f else f + 1)"

fun fround1 :: "pyfloat \<Rightarrow> pyfloat" where
  \<comment> \<open>\<^verbatim>\<open>round(x, 1)\<close>\<close>
  "fround1 (Fin a) = Fin (of_int (round_half_even (a * 10)) / 10)"
| "fround1 x = x"

section \<open>Dates\<close>

text \<open>
  A \<^verbatim>\<open>datetime\<close> is the ordinal of its day (1 is 0001-01-01, 3652059 is 9999-12-31) and
  the microsecond within that day; a \<^verbatim>\<open>timedelta\<close> is its length in microseconds. A
  number of days that is not whole is rounded to the nearest microsecond from its exact
  value.
\<close>

record datetime =
  ordinal :: int
  usec :: int

definition us_per_day :: int where
  "us_per_day = 86400000000"

definition days_before_year :: "int \<Rightarrow> int" where
  "days_before_year y = (y - 1) * 365 + (y - 1) div 4 - (y - 1) div 100 + (y - 1) div 400"

definition datetime_jan1 :: "int \<Rightarrow> error + datetime" where
  \<comment> \<open>\<^verbatim>\<open>datetime(year, 1, 1)\<close>\<close>
  "datetime_jan1 y =
     (if 1 \<le> y \<and> y \<le> 9999 then Inr \<lparr>ordinal = days_before_year y + 1, usec = 0\<rparr>
      else Inl ValueError)"

fun timedelta_days :: "pyfloat \<Rightarrow> error + int" where
  \<comment> \<open>\<^verbatim>\<open>timedelta(days=x)\<close>: rounded to the microsecond, halves to even\<close>
  "timedelta_days NaN = Inl ValueError"
| "timedelta_days (Fin d) =
     (let us = round_half_even (d * real_of_int us_per_day) in
      if \<bar>us div us_per_day\<bar> \<le> 999999999 then Inr us else Inl OverflowError)"
| "timedelta_days x = Inl OverflowError"

definition datetime_add :: "datetime \<Rightarrow> int \<Rightarrow> error + datetime" where
  \<comment> \<open>\<^verbatim>\<open>dt + delta\<close>\<close>
  "datetime_add dt us =
     (let t = ordinal dt * us_per_day + usec dt + us; d = t div us_per_day in
      if 1 \<le> d \<and> d \<le> 3652059 then Inr \<lparr>ordinal = d, usec = t mod us_per_day\<rparr>
      else Inl OverflowError)"

definition days_before_month :: "int \<Rightarrow> int" where
  "days_before_month m =
     (if m = 1 then 0 else if m = 2 then 31 else if m = 3 then 59 else if m = 4 then 90
      else if m = 5 then 120 else if m = 6 then 151 else if m = 7 then 181
      else if m = 8 then 212 else if m = 9 then 243 else if m = 10 then 273
      else if m = 11 then 304 else 334)"

definition days_in_month :: "int \<Rightarrow> int" where
  "days_in_month m =
     (if m = 2 then 28 else if m = 4 \<or> m = 6 \<or> m = 9 \<or> m = 11 then 30 else 31)"

definition ord2ymd :: "int \<Rightarrow> int \<times> int \<times> int" where
  \<comment> \<open>year, month and day of an ordinal, in the proleptic Gregorian calendar\<close>
  "ord2ymd n0 =
     (let n = n0 - 1;
          n400 = n div 146097; n = n mod 146097;
          n100 = n div 36524; n = n mod 36524;
          n4 = n div 1461; n = n mod 1461;
          n1 = n div 365; n = n mod 365;
          year = n400 * 400 + 1 + n100 * 100 + n4 * 4 + n1
      in if n1 = 4 \<or> n100 = 4 then (year - 1, 12, 31)
         else
           let leapyear = (n1 = 3 \<and> (n4 \<noteq> 24 \<or> n100 = 3));
               month = (n + 50) div 32;
               preceding = days_before_month month + (if 2 < month \<and> leapyear then 1 else 0)
           in if n < preceding
              then (year, month - 1,
                    n - (preceding - (days_in_month (month - 1)
                                      + (if month - 1 = 2 \<and> leapyear then 1 else 0))) + 1)
              else (year, month, n - preceding + 1))"

definition digit_char :: "int \<Rightarrow> char" where
  "digit_char d = ''0123456789'' ! nat (d mod 10)"

definition fmt2 :: "int \<Rightarrow> string" where
  \<comment> \<open>\<^verbatim>\<open>%02d\<close> of a number from 0 to 99\<close>
  "fmt2 n = [digit_char (n div 10), digit_char n]"

definition fmt4 :: "int \<Rightarrow> string" where
  \<comment> \<open>\<^verbatim>\<open>%04d\<close> of a number from 0 to 9999\<close>
  "fmt4 n = fmt2 (n div 100) @ fmt2 n"

definition fmt6 :: "int \<Rightarrow> string" where
  \<comment> \<open>\<^verbatim>\<open>%06d\<close> of a number from 0 to 999999\<close>
  "fmt6 n = fmt2 (n div 10000) @ fmt4 n"

definition isoformat :: "datetime \<Rightarrow> string" where
  \<comment> \<open>\<^verbatim>\<open>dt.isoformat()\<close>: the microseconds are printed only when they are not zero\<close>
  "isoformat dt =
     (let (y, m, d) = ord2ymd (ordinal dt);
          s = usec dt div 1000000;
          f = usec dt mod 1000000
      in fmt4 y @ ''-'' @ fmt2 m @ ''-'' @ fmt2 d @ ''T''
         @ fmt2 (s div 3600) @ '':'' @ fmt2 (s div 60 mod 60) @ '':'' @ fmt2 (s mod 60)
         @ (if f = 0 then [] else ''.'' @ fmt6 f))"

section \<open>The TLE parser\<close>

text \<open>The dictionary built for each object; all of its keys are always present.\<close>

record satellite =
  name :: string
  norad_id :: string
  int_designator :: string
  epoch :: string
  period_minutes :: pyfloat
  inclination :: pyfloat
  eccentricity :: pyfloat
  type :: string
  altitude :: pyfloat
  tle_line1 :: string
  tle_line2 :: string

definition debris_tokens :: "string list" where
  "debris_tokens = [''deb'', ''debris'', ''r/b'', ''rocket'']"

definition is_debris :: "string \<Rightarrow> bool" where
  \<comment> \<open>\<^verbatim>\<open>any(debris_cat in name.lower() for debris_cat in [...])\<close>\<close>
  "is_debris nm = list_ex (\<lambda>debris_cat. contains debris_cat (lower nm)) debris_tokens"

definition resolve_epoch_year :: "int \<Rightarrow> int" where
  \<comment> \<open>\<^verbatim>\<open>epoch_year + 2000 if epoch_year < 57 else epoch_year + 1900\<close>\<close>
  "resolve_epoch_year epoch_year =
     (if epoch_year < 57 then epoch_year + 2000 else epoch_year + 1900)"

definition epoch_date :: "int \<Rightarrow> pyfloat \<Rightarrow> error + datetime" where
  \<comment> \<open>\<^verbatim>\<open>datetime(epoch_year, 1, 1) + timedelta(days=epoch_day - 1)\<close>\<close>
  "epoch_date epoch_year epoch_day =
     (case datetime_jan1 epoch_year of
        Inl e \<Rightarrow> Inl e
      | Inr jan1 \<Rightarrow>
          (case timedelta_days (fsub epoch_day (Fin 1)) of
             Inl e \<Rightarrow> Inl e
           | Inr delta \<Rightarrow> datetime_add jan1 delta))"

definition semi_major_axis :: "pyfloat \<Rightarrow> error + pyfloat" where
  \<comment> \<open>\<^verbatim>\<open>(8681663.0 / (mean_motion * 2 * 3.14159 / 86400.0) ** 2) ** (1/3)\<close>\<close>
  "semi_major_axis mean_motion =
     (case fdiv (Fin 8681663)
             (fsquare (fquot (fmul (fmul mean_motion (Fin 2)) (Fin 3.14159)) (Fin 86400))) of
        Inl e \<Rightarrow> Inl e
      | Inr q \<Rightarrow> Inr (fcbrt q))"

definition parse_triplet :: "string \<Rightarrow> string \<Rightarrow> string \<Rightarrow> error + satellite" where
  \<comment> \<open>the body of the \<^verbatim>\<open>try\<close>, on the stripped lines; \<open>Inl\<close> is the exception caught\<close>
  "parse_triplet nm line1 line2 =
     (let norad = strip (slice 2 7 line1);
          int_des = strip (slice 9 17 line1)
      in case py_int (slice 18 20 line1) of
           None \<Rightarrow> Inl ValueError
         | Some epoch_yy \<Rightarrow>
      (case py_float (slice 20 32 line1) of
           None \<Rightarrow> Inl ValueError
         | Some epoch_day \<Rightarrow>
      (case epoch_date (resolve_epoch_year epoch_yy) epoch_day of
           Inl e \<Rightarrow> Inl e
         | Inr epoch_dt \<Rightarrow>
      (case py_float (slice 52 63 line2) of
           None \<Rightarrow> Inl ValueError
         | Some mean_motion \<Rightarrow>
      (case (if flt (Fin 0) mean_motion then fdiv (Fin 1440) mean_motion else Inr (Fin 0)) of
           Inl e \<Rightarrow> Inl e
         | Inr period \<Rightarrow>
      (case py_float (''0.'' @ slice 26 33 line2) of
           None \<Rightarrow> Inl ValueError
         | Some ecc \<Rightarrow>
      (case py_float (slice 8 16 line2) of
           None \<Rightarrow> Inl ValueError
         | Some incl \<Rightarrow>
      (case semi_major_axis mean_motion of
           Inl e \<Rightarrow> Inl e
         | Inr sma \<Rightarrow>
             Inr \<lparr>name = nm,
                  norad_id = norad,
                  int_designator = int_des,
                  epoch = isoformat epoch_dt,
                  period_minutes = period,
                  inclination = incl,
                  eccentricity = ecc,
                  type = (if is_debris nm then ''debris'' else ''satellite''),
                  altitude = fsub (fquot sma (Fin 1000)) (Fin 6371),
                  tle_line1 = line1,
                  tle_line2 = line2\<rparr>))))))))"

text \<open>
  The loop \<^verbatim>\<open>for i in range(0, len(lines), 3)\<close>, with the list of satellites built so
  far. What \<^verbatim>\<open>print\<close> writes for a triplet that raised is kept as the pair of the name
  and the exception; writing to the standard output is taken to succeed. The only
  statements that can raise are those of the \<^verbatim>\<open>try\<close> block, and \<^verbatim>\<open>except Exception\<close> catches
  all that they raise, so the loop has no error result of its own.
\<close>

function parse_loop ::
  "string list \<Rightarrow> nat \<Rightarrow> satellite list \<Rightarrow> (string \<times> error) list
     \<Rightarrow> satellite list \<times> (string \<times> error) list" where
  "parse_loop lines i satellites printed =
     (if i < length lines then
        (if i + 2 < length lines then
           (let nm = strip (lines ! i);
                line1 = strip (lines ! (i + 1));
                line2 = strip (lines ! (i + 2))
            in case parse_triplet nm line1 line2 of
                 Inr sat \<Rightarrow> parse_loop lines (i + 3) (satellites @ [sat]) printed
               | Inl e \<Rightarrow> parse_loop lines (i + 3) satellites (printed @ [(nm, e)]))
         else parse_loop lines (i + 3) satellites printed)
      else (satellites, printed))"
  by pat_completeness auto
termination
  by (relation "measure (\<lambda>(lines, i, satellites, printed). length lines - i)") auto

declare parse_loop.simps [simp del]

definition parse_tle_run :: "string \<Rightarrow> satellite list \<times> (string \<times> error) list" where
  "parse_tle_run tle_data = parse_loop (split_nl (strip tle_data)) 0 [] []"

definition parse_tle_data :: "string \<Rightarrow> satellite list" where
  "parse_tle_data tle_data = fst (parse_tle_run tle_data)"

section \<open>The catalog entity\<close>

record space_object =
  so_id :: string
  so_name :: string
  so_type :: string
  so_country :: string
  so_launchDate :: string
  so_altitude :: pyfloat
  so_inclination :: pyfloat
  so_period :: pyfloat
  so_status :: string
  so_riskLevel :: string
  so_lastUpdate :: string

definition country_codes :: "(string \<times> string) list" where
  \<comment> \<open>the dictionary literal, in the order it is written: a dictionary is iterated in
      insertion order\<close>
  "country_codes =
     [(''US'', ''USA''), (''CIS'', ''Russia''), (''PRC'', ''China''), (''ESA'', ''ESA''),
      (''FR'', ''France''), (''JP'', ''Japan''), (''IN'', ''India''), (''CA'', ''Canada''),
      (''UK'', ''UK'')]"

fun find_country :: "(string \<times> string) list \<Rightarrow> string \<Rightarrow> string" where
  \<comment> \<open>the \<^verbatim>\<open>for\<close> loop with its \<^verbatim>\<open>break\<close>\<close>
  "find_country [] int_des = ''Unknown''"
| "find_country ((code, country) # rest) int_des =
     (if int_des \<noteq> [] \<and> contains code int_des then country
      else find_country rest int_des)"

definition risk_level :: "pyfloat \<Rightarrow> string" where
  "risk_level alt =
     (if flt alt (Fin 500) then ''high''
      else if flt alt (Fin 800) then ''medium''
      else ''low'')"

definition to_space_object :: "string \<Rightarrow> satellite \<Rightarrow> space_object" where
  \<comment> \<open>the first argument is what \<^verbatim>\<open>datetime.now().isoformat()\<close> returns at the call\<close>
  "to_space_object now sat =
     \<lparr>so_id = (if type sat = ''satellite'' then ''SAT-'' @ norad_id sat
               else ''DEB-'' @ norad_id sat),
      so_name = name sat,
      so_type = type sat,
      so_country = find_country country_codes (int_designator sat),
      so_launchDate = takeWhile (\<lambda>c. c \<noteq> CHR ''T'') (epoch sat),
      so_altitude = fround1 (altitude sat),
      so_inclination = fround1 (inclination sat),
      so_period = fround1 (fquot (period_minutes sat) (Fin 60)),
      so_status = (if type sat = ''satellite'' then ''active'' else ''inactive''),
      so_riskLevel = risk_level (altitude sat),
      so_lastUpdate = now\<rparr>"

section \<open>The specification's view of the parser\<close>

text \<open>
  The specification describes the parser by its result: the lines are taken in groups of
  exactly three, a dangling partial group is dropped, each group is processed on its own,
  the groups that raise are reported and left out.
\<close>

fun triplets :: "string list \<Rightarrow> (string \<times> string \<times> string) list" where
  "triplets (a # b # c # rest) = (a, b, c) # triplets rest"
| "triplets rest = []"

fun outcomes :: "(string \<times> string \<times> string) list \<Rightarrow> (string \<times> (error + satellite)) list" where
  \<comment> \<open>the stripped name of each group, with what processing the group gives\<close>
  "outcomes [] = []"
| "outcomes ((a, b, c) # ts) =
     (strip a, parse_triplet (strip a) (strip b) (strip c)) # outcomes ts"

fun records :: "(string \<times> (error + satellite)) list \<Rightarrow> satellite list" where
  "records [] = []"
| "records ((nm, Inr sat) # os) = sat # records os"
| "records ((nm, Inl e) # os) = records os"

fun reports :: "(string \<times> (error + satellite)) list \<Rightarrow> (string \<times> error) list" where
  "reports [] = []"
| "reports ((nm, Inr sat) # os) = reports os"
| "reports ((nm, Inl e) # os) = (nm, e) # reports os"

definition period_of :: "pyfloat \<Rightarrow> pyfloat" where
  \<comment> \<open>the value of the guarded division \<^verbatim>\<open>1440.0 / mean_motion if mean_motion > 0 else 0\<close>\<close>
  "period_of mm = (if flt (Fin 0) mm then fquot (Fin 1440) mm else Fin 0)"

section \<open>Sample feeds\<close>

text \<open>A feed of one object, used to run the parser on; the epoch is noon of 1 January 2024.\<close>

definition iss_name :: string where
  "iss_name = ''ISS (ZARYA)''"

definition iss_line1 :: string where
  "iss_line1 = ''1 25544U 98067A   24001.50000000  .00016717  00000-0  10270-3 0  9005''"

definition iss_line2 :: string where
  "iss_line2 = ''2 25544  51.6400 208.9163 0006703  69.9862  25.2906 15.50000000300001''"

definition iss_tle :: string where
  "iss_tle = iss_name @ [CHR 0x0A] @ iss_line1 @ [CHR 0x0A] @ iss_line2 @ [CHR 0x0A]"

definition iss_altitude :: pyfloat where
  "iss_altitude = Fin ((8681663 / (15.5 * 2 * 3.14159 / 86400) ^ 2) powr (1 / 3) / 1000 - 6371)"

definition iss_satellite :: satellite where
  "iss_satellite =
     \<lparr>name = ''ISS (ZARYA)'', norad_id = ''25544'', int_designator = ''98067A'',
      epoch = ''2024-01-01T12:00:00'', period_minutes = Fin (1440 / 15.5),
      inclination = Fin 51.64, eccentricity = Fin 0.0006703, type = ''satellite'',
      altitude = iss_altitude, tle_line1 = iss_line1, tle_line2 = iss_line2\<rparr>"

text \<open>
  A feed of two objects whose first group is malformed: its second element line is cut
  to 10 characters.
\<close>

definition truncated_line2 :: string where
  "truncated_line2 = ''2 25544  5''"

definition mixed_tle :: string where
  "mixed_tle = ''NOAA 19'' @ [CHR 0x0A] @ iss_line1 @ [CHR 0x0A] @ truncated_line2 @ [CHR 0x0A]
     @ iss_name @ [CHR 0x0A] @ iss_line1 @ [CHR 0x0A] @ iss_line2 @ [CHR 0x0A]"

text \<open>A feed of a fragment and a station, both with the elements of the first feed.\<close>

definition pair_tle :: string where
  "pair_tle = ''COSMOS 2251 DEBRIS'' @ [CHR 0x0A] @ iss_line1 @ [CHR 0x0A] @ iss_line2
     @ [CHR 0x0A] @ iss_name @ [CHR 0x0A] @ iss_line1 @ [CHR 0x0A] @ iss_line2"

text \<open>The first feed as a file with CR LF line ends.\<close>

definition crlf_tle :: string where
  "crlf_tle = iss_name @ [CHR 0x0D, CHR 0x0A] @ iss_line1 @ [CHR 0x0D, CHR 0x0A]
     @ iss_line2 @ [CHR 0x0D, CHR 0x0A]"

text \<open>The first feed with a mean motion of zero.\<close>

definition zero_line2 :: string where
  "zero_line2 = ''2 25544  51.6400 208.9163 0006703  69.9862  25.2906  0.00000000300001''"

definition zero_tle :: string where
  "zero_tle = iss_name @ [CHR 0x0A] @ iss_line1 @ [CHR 0x0A] @ zero_line2 @ [CHR 0x0A]"

text \<open>The first feed with another two-digit epoch year.\<close>

definition year_line1 :: "string \<Rightarrow> string" where
  "year_line1 yy =
     ''1 25544U 98067A   '' @ yy @ ''001.50000000  .00016717  00000-0  10270-3 0  9005''"

definition year_tle :: "string \<Rightarrow> string" where
  "year_tle yy = iss_name @ [CHR 0x0A] @ year_line1 yy @ [CHR 0x0A] @ iss_line2"

text \<open>
  The first feed with both element lines cut short: the first after 23 characters, inside
  the epoch day (columns 20 to 32), the second after 54 characters, inside the mean motion
  (columns 52 to 63).
\<close>

definition short_line1 :: string where
  "short_line1 = ''1 25544U 98067A   24001''"

definition short_line2 :: string where
  "short_line2 = ''2 25544  51.6400 208.9163 0006703  69.9862  25.2906 15''"

definition short_tle :: string where
  "short_tle = iss_name @ [CHR 0x0A] @ short_line1 @ [CHR 0x0A] @ short_line2"

definition short_satellite :: satellite where
  "short_satellite =
     \<lparr>name = ''ISS (ZARYA)'', norad_id = ''25544'', int_designator = ''98067A'',
      epoch = ''2024-01-01T00:00:00'', period_minutes = Fin 96,
      inclination = Fin 51.64, eccentricity = Fin 0.0006703, type = ''satellite'',
      altitude = Fin ((8681663 / (15 * 2 * 3.14159 / 86400) ^ 2) powr (1 / 3) / 1000 - 6371),
      tle_line1 = short_line1, tle_line2 = short_line2\<rparr>"

text \<open>
  A first line cut after 27 characters, which leaves 9999999 as its epoch day, and one
  cut after 19 characters, which leaves no epoch day at all.
\<close>

definition overflow_line1 :: string where
  "overflow_line1 = ''1 25544U 98067A   249999999''"

definition overflow_tle :: string where
  "overflow_tle = iss_name @ [CHR 0x0A] @ overflow_line1 @ [CHR 0x0A] @ iss_line2"

definition nineteen_line1 :: string where
  "nineteen_line1 = ''1 25544U 98067A   2''"

section \<open>Auxiliary facts\<close>

subsection \<open>Substrings\<close>

lemma contains_sublist: "contains sub s = sublist sub s"
  by (induction s) (auto simp: sublist_Cons_right)

lemma sublist_map_iff: "sublist ys (map f xs) \<longleftrightarrow> (\<exists>w. sublist w xs \<and> map f w = ys)"
proof
  assume "sublist ys (map f xs)"
  then obtain ps ss where "map f xs = ps @ (ys @ ss)" by (auto simp: sublist_def)
  then obtain us vs where uv: "xs = us @ vs" "map f vs = ys @ ss"
    by (metis map_eq_append_conv)
  then obtain w t where "vs = w @ t" "map f w = ys"
    by (metis map_eq_append_conv)
  with uv have "xs = us @ w @ t" "map f w = ys" by simp_all
  then show "\<exists>w. sublist w xs \<and> map f w = ys" by (auto simp: sublist_def)
next
  assume "\<exists>w. sublist w xs \<and> map f w = ys"
  then obtain w ps ss where "xs = ps @ w @ ss" "map f w = ys" by (auto simp: sublist_def)
  then have "map f xs = map f ps @ ys @ map f ss" by simp
  then show "sublist ys (map f xs)" by (simp only: sublist_appendI)
qed

lemma is_debris_iff:
  "is_debris nm \<longleftrightarrow>
     (\<exists>tok \<in> set [''deb'', ''debris'', ''r/b'', ''rocket''].
        \<exists>w. sublist w nm \<and> lower w = tok)"
  unfolding is_debris_def debris_tokens_def list_ex_iff contains_sublist lower_def sublist_map_iff
  by simp

lemma find_country_first:
  "\<forall>(code, country) \<in> set table. code \<noteq> [] \<Longrightarrow>
   find_country table int_des =
     (case find (\<lambda>(code, country). sublist code int_des) table of
        None \<Rightarrow> ''Unknown'' | Some (code, country) \<Rightarrow> country)"
  by (induction table int_des rule: find_country.induct) (auto simp: contains_sublist)

subsection \<open>One group of three lines\<close>

lemma semi_major_axis_zero: "semi_major_axis (Fin 0) = Inl ZeroDivisionError"
  by (simp add: semi_major_axis_def fdiv_def)

lemma sma_square_zero:
  "fsquare (fquot (fmul (fmul mm (Fin 2)) (Fin 3.14159)) (Fin 86400)) = Fin 0 \<longleftrightarrow> mm = Fin 0"
  by (cases mm) (auto simp: signed_inf_def)

lemma semi_major_axis_Inr:
  "mm \<noteq> Fin 0 \<Longrightarrow> semi_major_axis mm =
     Inr (fcbrt (fquot (Fin 8681663)
            (fsquare (fquot (fmul (fmul mm (Fin 2)) (Fin 3.14159)) (Fin 86400)))))"
  unfolding semi_major_axis_def fdiv_def sma_square_zero by simp

lemma semi_major_axis_Inl: "semi_major_axis mm = Inl e \<longleftrightarrow> mm = Fin 0 \<and> e = ZeroDivisionError"
  by (cases "mm = Fin 0") (auto simp: semi_major_axis_zero semi_major_axis_Inr)

lemma semi_major_axis_Fin:
  "m \<noteq> 0 \<Longrightarrow> semi_major_axis (Fin m) =
     Inr (Fin ((8681663 / (m * 2 * 3.14159 / 86400) ^ 2) powr (1 / 3)))"
  by (simp add: semi_major_axis_Inr)

lemma semi_major_base_nonneg:
  "fquot (Fin 8681663) (fsquare (fquot (fmul (fmul mm (Fin 2)) (Fin 3.14159)) (Fin 86400)))
     = Fin q \<Longrightarrow> 0 \<le> q"
  by (cases mm) (auto simp: signed_inf_def split: if_splits)

lemma period_never_raises:
  "(if flt (Fin 0) mm then fdiv (Fin 1440) mm else Inr (Fin 0)) = Inr (period_of mm)"
  by (cases mm) (auto simp: fdiv_def period_of_def)

lemma parse_triplet_Inr_iff:
  "parse_triplet nm l1 l2 = Inr sat \<longleftrightarrow>
   (\<exists>yy ed dt mm ecc incl sma.
      py_int (slice 18 20 l1) = Some yy \<and>
      py_float (slice 20 32 l1) = Some ed \<and>
      epoch_date (resolve_epoch_year yy) ed = Inr dt \<and>
      py_float (slice 52 63 l2) = Some mm \<and>
      py_float (''0.'' @ slice 26 33 l2) = Some ecc \<and>
      py_float (slice 8 16 l2) = Some incl \<and>
      semi_major_axis mm = Inr sma \<and>
      sat = \<lparr>name = nm, norad_id = strip (slice 2 7 l1), int_designator = strip (slice 9 17 l1),
             epoch = isoformat dt, period_minutes = period_of mm, inclination = incl,
             eccentricity = ecc,
             type = (if is_debris nm then ''debris'' else ''satellite''),
             altitude = fsub (fquot sma (Fin 1000)) (Fin 6371),
             tle_line1 = l1, tle_line2 = l2\<rparr>)"
  unfolding parse_triplet_def Let_def period_never_raises
  by (auto split: option.splits sum.splits)

lemma parse_triplet_emits:
  assumes "py_int (slice 18 20 l1) = Some yy"
    and "py_float (slice 20 32 l1) = Some ed"
    and "epoch_date (resolve_epoch_year yy) ed = Inr dt"
    and "py_float (slice 52 63 l2) = Some mm"
    and "mm \<noteq> Fin 0"
    and "py_float (''0.'' @ slice 26 33 l2) = Some ecc"
    and "py_float (slice 8 16 l2) = Some incl"
  shows "parse_triplet nm l1 l2 =
    Inr \<lparr>name = nm, norad_id = strip (slice 2 7 l1), int_designator = strip (slice 9 17 l1),
         epoch = isoformat dt, period_minutes = period_of mm, inclination = incl,
         eccentricity = ecc, type = (if is_debris nm then ''debris'' else ''satellite''),
         altitude = fsub (fquot (fcbrt (fquot (Fin 8681663)
             (fsquare (fquot (fmul (fmul mm (Fin 2)) (Fin 3.14159)) (Fin 86400)))))
             (Fin 1000)) (Fin 6371),
         tle_line1 = l1, tle_line2 = l2\<rparr>"
  unfolding parse_triplet_Inr_iff using assms semi_major_axis_Inr[OF assms(5)] by simp

lemma parse_triplet_zero_motion:
  assumes "py_float (slice 52 63 l2) = Some (Fin 0)"
  shows "parse_triplet nm l1 l2 \<noteq> Inr sat"
  using assms by (auto simp: parse_triplet_Inr_iff semi_major_axis_zero)

lemma py_float_empty: "py_float [] = None"
  by (simp add: py_float_def num_strip_def lower_def Let_def)

lemma parse_triplet_no_epoch_day:
  assumes "length l1 \<le> 20"
  shows "parse_triplet nm l1 l2 = Inl ValueError"
proof -
  have "slice 20 32 l1 = []" using assms by (simp add: slice_def)
  then show ?thesis
    by (simp add: parse_triplet_def py_float_empty split: option.splits)
qed

subsection \<open>The loop\<close>

lemma drop3:
  assumes "i + 2 < length xs"
  shows "drop i xs = xs ! i # xs ! (i + 1) # xs ! (i + 2) # drop (i + 3) xs"
proof -
  have "drop i xs = xs ! i # drop (Suc i) xs" using assms by (simp add: Cons_nth_drop_Suc)
  moreover have "drop (Suc i) xs = xs ! (i + 1) # drop (Suc (Suc i)) xs"
    using assms by (simp add: Cons_nth_drop_Suc)
  moreover have "drop (Suc (Suc i)) xs = xs ! (i + 2) # drop (i + 3) xs"
    using assms Cons_nth_drop_Suc[of "i + 2" xs] by (simp add: numeral_3_eq_3)
  ultimately show ?thesis by simp
qed

lemma triplets_short: "length xs < 3 \<Longrightarrow> triplets xs = []"
  by (cases xs rule: triplets.cases) auto

lemma parse_loop_triplets:
  "parse_loop lines i sats printed =
     (sats @ records (outcomes (triplets (drop i lines))),
      printed @ reports (outcomes (triplets (drop i lines))))"
proof (induction lines i sats printed rule: parse_loop.induct)
  case (1 lines i satellites printed)
  show ?case
  proof (cases "i + 2 < length lines")
    case True
    note d = drop3[OF True]
    show ?thesis
    proof (cases "parse_triplet (strip (lines ! i)) (strip (lines ! (i + 1)))
                    (strip (lines ! (i + 2)))")
      case (Inl e)
      with True 1(1)[OF _ True refl refl refl Inl] show ?thesis
        by (subst parse_loop.simps) (simp add: d)
    next
      case (Inr sat)
      with True 1(2)[OF _ True refl refl refl Inr] show ?thesis
        by (subst parse_loop.simps) (simp add: d)
    qed
  next
    case False
    then have s: "triplets (drop i lines) = []" "triplets (drop (i + 3) lines) = []"
      by (auto intro!: triplets_short)
    show ?thesis
    proof (cases "i < length lines")
      case True
      with False 1(3)[OF True False] show ?thesis
        by (subst parse_loop.simps) (simp add: s)
    next
      case False
      then show ?thesis by (subst parse_loop.simps) simp
    qed
  qed
qed

lemma parse_tle_run_triplets:
  "parse_tle_run s = (records (outcomes (triplets (split_nl (strip s)))),
                      reports (outcomes (triplets (split_nl (strip s)))))"
  by (simp add: parse_tle_run_def parse_loop_triplets)

lemma records_member:
  "sat \<in> set (records (outcomes ts)) \<Longrightarrow>
   \<exists>(a, b, c) \<in> set ts. parse_triplet (strip a) (strip b) (strip c) = Inr sat"
proof (induction ts)
  case Nil
  then show ?case by simp
next
  case (Cons t ts)
  obtain a b c where t: "t = (a, b, c)" by (cases t)
  show ?case
  proof (cases "parse_triplet (strip a) (strip b) (strip c)")
    case (Inl e)
    with Cons t show ?thesis by auto
  next
    case (Inr sat')
    with Cons t show ?thesis by auto
  qed
qed

lemma parse_tle_data_member:
  assumes "sat \<in> set (parse_tle_data s)"
  shows "\<exists>(a, b, c) \<in> set (triplets (split_nl (strip s))).
           parse_triplet (strip a) (strip b) (strip c) = Inr sat"
  using assms records_member by (simp add: parse_tle_data_def parse_tle_run_triplets)

subsection \<open>The constant 3.14159 is not \<open>\<pi>\<close>\<close>

lemma sin_coeff_values:
  "sin_coeff 0 = 0" "sin_coeff (Suc 0) = 1" "sin_coeff 2 = 0" "sin_coeff 3 = - 1 / 6"
  "sin_coeff 4 = 0" "sin_coeff 5 = 1 / 120" "sin_coeff 6 = 0" "sin_coeff 7 = - 1 / 5040"
  by (simp_all add: sin_coeff_def fact_numeral)

lemma sin_poly:
  "(\<Sum>m<8. sin_coeff m * x ^ m) = x - x ^ 3 / 6 + x ^ 5 / 120 - x ^ 7 / 5040" for x :: real
proof -
  have "{..<8::nat} = {0, 1, 2, 3, 4, 5, 6, 7}" by auto
  then show ?thesis by (simp add: sin_coeff_values)
qed

lemma sin_lt_half: "sin (314159 / 600000 :: real) < 1 / 2"
proof -
  let ?x = "314159 / 600000 :: real"
  have "\<bar>sin ?x - (\<Sum>m<8. sin_coeff m * ?x ^ m)\<bar> \<le> inverse (fact 8) * \<bar>?x\<bar> ^ 8"
    by (rule Maclaurin_sin_bound)
  then have "sin ?x \<le> (?x - ?x ^ 3 / 6 + ?x ^ 5 / 120 - ?x ^ 7 / 5040)
      + inverse (fact 8) * \<bar>?x\<bar> ^ 8"
    unfolding sin_poly by linarith
  also have "\<dots> < 1 / 2"
    by (simp add: fact_numeral power_divide)
  finally show ?thesis .
qed

lemma pi_neq_approx: "pi \<noteq> (3.14159 :: real)"
proof
  assume "pi = (3.14159 :: real)"
  then have "pi / 6 = (314159 / 600000 :: real)" by simp
  then have "sin (314159 / 600000 :: real) = 1 / 2" using sin_30 by metis
  with sin_lt_half show False by simp
qed

lemma cube_root_inj:
  fixes a b :: real
  assumes "0 < a" "0 < b" "a powr (1 / 3) = b powr (1 / 3)"
  shows "a = b"
proof -
  have "a = (a powr (1 / 3)) powr 3" using assms(1) by (simp add: powr_powr)
  also have "\<dots> = (b powr (1 / 3)) powr 3" using assms(3) by simp
  also have "\<dots> = b" using assms(2) by (simp add: powr_powr)
  finally show ?thesis .
qed

lemma semi_major_axis_not_pi:
  fixes m :: real
  assumes "m \<noteq> 0"
  shows "(8681663 / (m * 2 * 3.14159 / 86400) ^ 2) powr (1 / 3)
           \<noteq> (8681663 / (m * 2 * pi / 86400) ^ 2) powr (1 / 3)"
proof
  let ?a = "m * 2 * 3.14159 / 86400" and ?b = "m * 2 * pi / 86400"
  assume eq: "(8681663 / ?a ^ 2) powr (1 / 3) = (8681663 / ?b ^ 2) powr (1 / 3)"
  have pos: "0 < ?a ^ 2" "0 < ?b ^ 2" using assms by simp_all
  then have "0 < 8681663 / ?a ^ 2" "0 < 8681663 / ?b ^ 2" by simp_all
  from cube_root_inj[OF this eq] have "?a ^ 2 = ?b ^ 2" using pos by (simp add: field_simps)
  then have "\<bar>?a\<bar> = \<bar>?b\<bar>" by (simp only: power2_eq_iff abs_eq_iff) 
  then have "\<bar>m\<bar> * 3.14159 = \<bar>m\<bar> * pi" by (simp add: abs_mult)
  then have "pi = 3.14159" using assms by simp
  with pi_neq_approx show False by simp
qed

lemma semi_major_axis_sign: "semi_major_axis (Fin (- m)) = semi_major_axis (Fin m)"
  by (simp add: semi_major_axis_def fdiv_def)

section \<open>The sample feeds, evaluated\<close>

lemmas string_eval = strip_def is_space_def whitespace_def slice_def lower_def lower_char_def
  is_upper_def

lemmas number_eval = py_int_def py_float_def num_strip_def is_num_space_def is_digit_def
  digit_val_def digits_val_def signed_digits_def parse_exponent_def decimal_value_def

lemmas date_eval = epoch_date_def resolve_epoch_year_def datetime_jan1_def days_before_year_def
  datetime_add_def us_per_day_def round_half_even_def

lemma single_group:
  assumes "split_nl (strip s) = [a, b, c]"
    and "strip a = nm" and "strip b = l1" and "strip c = l2"
  shows "parse_tle_run s = (records [(nm, parse_triplet nm l1 l2)],
                            reports [(nm, parse_triplet nm l1 l2)])"
  by (simp add: parse_tle_run_triplets assms)

subsection \<open>The station\<close>

lemma iss_line1_fields:
  "py_int (slice 18 20 iss_line1) = Some 24"
  "py_float (slice 20 32 iss_line1) = Some (Fin (3 / 2))"
  "strip (slice 2 7 iss_line1) = ''25544''"
  "strip (slice 9 17 iss_line1) = ''98067A''"
  by (simp_all add: iss_line1_def string_eval number_eval)

lemma iss_line2_fields:
  "py_float (slice 52 63 iss_line2) = Some (Fin 15.5)"
  "py_float (''0.'' @ slice 26 33 iss_line2) = Some (Fin 0.0006703)"
  "py_float (slice 8 16 iss_line2) = Some (Fin 51.64)"
  by (simp_all add: iss_line2_def string_eval number_eval)

lemma noon_2024:
  "epoch_date (resolve_epoch_year 24) (Fin (3 / 2))
     = Inr \<lparr>ordinal = 738886, usec = 43200000000\<rparr>"
  by (simp add: date_eval)

lemma iso_noon:
  "isoformat \<lparr>ordinal = 738886, usec = 43200000000\<rparr> = ''2024-01-01T12:00:00''"
  by code_simp

lemma with_iss_line2:
  assumes "py_int (slice 18 20 l1) = Some yy"
    and "py_float (slice 20 32 l1) = Some ed"
    and "epoch_date (resolve_epoch_year yy) ed = Inr dt"
  shows "parse_triplet nm l1 iss_line2 =
    Inr \<lparr>name = nm, norad_id = strip (slice 2 7 l1), int_designator = strip (slice 9 17 l1),
         epoch = isoformat dt, period_minutes = Fin (1440 / 15.5), inclination = Fin 51.64,
         eccentricity = Fin 0.0006703,
         type = (if is_debris nm then ''debris'' else ''satellite''),
         altitude = iss_altitude, tle_line1 = l1, tle_line2 = iss_line2\<rparr>"
proof -
  have nz: "Fin 15.5 \<noteq> Fin 0" by simp
  show ?thesis
    unfolding parse_triplet_emits[OF assms iss_line2_fields(1) nz iss_line2_fields(2,3)]
    by (simp add: iss_altitude_def period_of_def)
qed

lemma iss_elements:
  "parse_triplet nm iss_line1 iss_line2 =
     Inr (iss_satellite\<lparr>name := nm,
                         type := (if is_debris nm then ''debris'' else ''satellite'')\<rparr>)"
  unfolding with_iss_line2[OF iss_line1_fields(1,2) noon_2024] iss_line1_fields iso_noon
  by (simp add: iss_satellite_def)

lemma iss_not_debris: "\<not> is_debris iss_name"
  by (simp add: iss_name_def is_debris_def debris_tokens_def string_eval)

lemma cosmos_debris: "is_debris ''COSMOS 2251 DEBRIS''"
  by (simp add: is_debris_def debris_tokens_def string_eval)

lemma iss_triplet: "parse_triplet iss_name iss_line1 iss_line2 = Inr iss_satellite"
  unfolding iss_elements by (simp add: iss_not_debris) (simp add: iss_satellite_def iss_name_def)

lemma iss_strip:
  "strip iss_name = iss_name" "strip iss_line1 = iss_line1" "strip iss_line2 = iss_line2"
  by code_simp+

lemma iss_lines: "split_nl (strip iss_tle) = [iss_name, iss_line1, iss_line2]"
  by code_simp

lemma iss_run: "parse_tle_run iss_tle = ([iss_satellite], [])"
  by (simp add: single_group[OF iss_lines iss_strip] iss_triplet)

subsection \<open>The feed with a malformed group\<close>

lemma truncated_triplet: "parse_triplet nm iss_line1 truncated_line2 = Inl ValueError"
proof -
  have "py_float (slice 52 63 truncated_line2) = None"
    by (simp add: truncated_line2_def string_eval number_eval)
  then show ?thesis by (simp add: parse_triplet_def iss_line1_fields noon_2024)
qed

lemma mixed_lines:
  "split_nl (strip mixed_tle) =
     [''NOAA 19'', iss_line1, truncated_line2, iss_name, iss_line1, iss_line2]"
  by code_simp

lemma truncated_strip: "strip ''NOAA 19'' = ''NOAA 19''" "strip truncated_line2 = truncated_line2"
  by code_simp+

lemma mixed_run: "parse_tle_run mixed_tle = ([iss_satellite], [(''NOAA 19'', ValueError)])"
  by (simp add: parse_tle_run_triplets mixed_lines iss_strip truncated_strip iss_triplet
        truncated_triplet)

subsection \<open>The fragment and the station\<close>

lemma pair_lines:
  "split_nl (strip pair_tle) =
     [''COSMOS 2251 DEBRIS'', iss_line1, iss_line2, iss_name, iss_line1, iss_line2]"
  by code_simp

lemma cosmos_strip: "strip ''COSMOS 2251 DEBRIS'' = ''COSMOS 2251 DEBRIS''"
  by code_simp

lemma pair_run:
  "parse_tle_run pair_tle =
     ([iss_satellite\<lparr>name := ''COSMOS 2251 DEBRIS'', type := ''debris''\<rparr>, iss_satellite], [])"
  by (simp add: parse_tle_run_triplets pair_lines cosmos_strip iss_strip
        iss_elements[of "''COSMOS 2251 DEBRIS''"] cosmos_debris iss_triplet)

subsection \<open>The file with CR LF line ends\<close>

lemma crlf_lines:
  "split_nl (strip crlf_tle) = [iss_name @ [CHR 0x0D], iss_line1 @ [CHR 0x0D], iss_line2]"
  by code_simp

lemma crlf_strip:
  "strip (iss_name @ [CHR 0x0D]) = iss_name" "strip (iss_line1 @ [CHR 0x0D]) = iss_line1"
  by code_simp+

lemma crlf_second_line: "split_nl crlf_tle ! 1 = iss_line1 @ [CHR 0x0D]"
  by code_simp

lemma crlf_run: "parse_tle_run crlf_tle = ([iss_satellite], [])"
  by (simp add: single_group[OF crlf_lines crlf_strip iss_strip(3)] iss_triplet)

subsection \<open>The mean motion of zero\<close>

lemma zero_line2_fields:
  "py_float (slice 52 63 zero_line2) = Some (Fin 0)"
  "py_float (''0.'' @ slice 26 33 zero_line2) = Some (Fin 0.0006703)"
  "py_float (slice 8 16 zero_line2) = Some (Fin 51.64)"
  by (simp_all add: zero_line2_def string_eval number_eval)

lemma zero_triplet: "parse_triplet nm iss_line1 zero_line2 = Inl ZeroDivisionError"
  unfolding parse_triplet_def iss_line1_fields zero_line2_fields
  by (simp add: noon_2024 semi_major_axis_zero)

lemma zero_lines: "split_nl (strip zero_tle) = [iss_name, iss_line1, zero_line2]"
  by code_simp

lemma zero_strip: "strip zero_line2 = zero_line2"
  by code_simp

lemma zero_run: "parse_tle_run zero_tle = ([], [(iss_name, ZeroDivisionError)])"
  by (simp add: single_group[OF zero_lines iss_strip(1,2) zero_strip] zero_triplet)

subsection \<open>The epoch years\<close>

lemma year_line1_fields:
  assumes "length yy = 2"
  shows "slice 18 20 (year_line1 yy) = yy"
    and "py_float (slice 20 32 (year_line1 yy)) = Some (Fin (3 / 2))"
    and "strip (slice 2 7 (year_line1 yy)) = ''25544''"
    and "strip (slice 9 17 (year_line1 yy)) = ''98067A''"
  using assms by (simp_all add: year_line1_def string_eval number_eval)

lemma year_triplet:
  assumes "length yy = 2" and "py_int yy = Some y"
    and "epoch_date (resolve_epoch_year y) (Fin (3 / 2)) = Inr dt"
  shows "parse_triplet iss_name (year_line1 yy) iss_line2 =
           Inr (iss_satellite\<lparr>epoch := isoformat dt, tle_line1 := year_line1 yy\<rparr>)"
proof -
  have 1: "py_int (slice 18 20 (year_line1 yy)) = Some y"
    using assms(1,2) by (simp add: year_line1_fields(1))
  show ?thesis
    unfolding with_iss_line2[OF 1 year_line1_fields(2)[OF assms(1)] assms(3)]
      year_line1_fields(3,4)[OF assms(1)]
    by (simp add: iss_not_debris) (simp add: iss_satellite_def iss_name_def)
qed

lemma year_values:
  "py_int ''24'' = Some 24" "py_int ''99'' = Some 99" "py_int ''56'' = Some 56"
  "py_int ''57'' = Some 57"
  by (simp_all add: number_eval)

lemma year_epochs:
  "epoch_date (resolve_epoch_year 99) (Fin (3 / 2))
     = Inr \<lparr>ordinal = 729755, usec = 43200000000\<rparr>"
  "epoch_date (resolve_epoch_year 56) (Fin (3 / 2))
     = Inr \<lparr>ordinal = 750574, usec = 43200000000\<rparr>"
  "epoch_date (resolve_epoch_year 57) (Fin (3 / 2))
     = Inr \<lparr>ordinal = 714415, usec = 43200000000\<rparr>"
  by (simp_all add: date_eval)

lemma year_isoformats:
  "isoformat \<lparr>ordinal = 729755, usec = 43200000000\<rparr> = ''1999-01-01T12:00:00''"
  "isoformat \<lparr>ordinal = 750574, usec = 43200000000\<rparr> = ''2056-01-01T12:00:00''"
  "isoformat \<lparr>ordinal = 714415, usec = 43200000000\<rparr> = ''1957-01-01T12:00:00''"
  by code_simp+

lemma year_lines:
  "split_nl (strip (year_tle ''24'')) = [iss_name, year_line1 ''24'', iss_line2]"
  "split_nl (strip (year_tle ''99'')) = [iss_name, year_line1 ''99'', iss_line2]"
  "split_nl (strip (year_tle ''56'')) = [iss_name, year_line1 ''56'', iss_line2]"
  "split_nl (strip (year_tle ''57'')) = [iss_name, year_line1 ''57'', iss_line2]"
  by code_simp+

lemma year_strip:
  "strip (year_line1 ''24'') = year_line1 ''24''" "strip (year_line1 ''99'') = year_line1 ''99''"
  "strip (year_line1 ''56'') = year_line1 ''56''" "strip (year_line1 ''57'') = year_line1 ''57''"
  by code_simp+

lemma year_runs:
  "parse_tle_data (year_tle ''24'') =
     [iss_satellite\<lparr>epoch := ''2024-01-01T12:00:00'', tle_line1 := year_line1 ''24''\<rparr>]"
  "parse_tle_data (year_tle ''99'') =
     [iss_satellite\<lparr>epoch := ''1999-01-01T12:00:00'', tle_line1 := year_line1 ''99''\<rparr>]"
  "parse_tle_data (year_tle ''56'') =
     [iss_satellite\<lparr>epoch := ''2056-01-01T12:00:00'', tle_line1 := year_line1 ''56''\<rparr>]"
  "parse_tle_data (year_tle ''57'') =
     [iss_satellite\<lparr>epoch := ''1957-01-01T12:00:00'', tle_line1 := year_line1 ''57''\<rparr>]"
proof -
  have len: "length ''24'' = 2" "length ''99'' = 2" "length ''56'' = 2" "length ''57'' = 2"
    by simp_all
  show "parse_tle_data (year_tle ''24'') =
     [iss_satellite\<lparr>epoch := ''2024-01-01T12:00:00'', tle_line1 := year_line1 ''24''\<rparr>]"
    by (simp add: parse_tle_data_def
          single_group[OF year_lines(1) iss_strip(1) year_strip(1) iss_strip(3)]
          year_triplet[OF len(1) year_values(1) noon_2024] iso_noon)
  show "parse_tle_data (year_tle ''99'') =
     [iss_satellite\<lparr>epoch := ''1999-01-01T12:00:00'', tle_line1 := year_line1 ''99''\<rparr>]"
    by (simp add: parse_tle_data_def
          single_group[OF year_lines(2) iss_strip(1) year_strip(2) iss_strip(3)]
          year_triplet[OF len(2) year_values(2) year_epochs(1)] year_isoformats)
  show "parse_tle_data (year_tle ''56'') =
     [iss_satellite\<lparr>epoch := ''2056-01-01T12:00:00'', tle_line1 := year_line1 ''56''\<rparr>]"
    by (simp add: parse_tle_data_def
          single_group[OF year_lines(3) iss_strip(1) year_strip(3) iss_strip(3)]
          year_triplet[OF len(3) year_values(3) year_epochs(2)] year_isoformats)
  show "parse_tle_data (year_tle ''57'') =
     [iss_satellite\<lparr>epoch := ''1957-01-01T12:00:00'', tle_line1 := year_line1 ''57''\<rparr>]"
    by (simp add: parse_tle_data_def
          single_group[OF year_lines(4) iss_strip(1) year_strip(4) iss_strip(3)]
          year_triplet[OF len(4) year_values(4) year_epochs(3)] year_isoformats)
qed

subsection \<open>The lines cut short\<close>

lemma short_line1_fields:
  "py_int (slice 18 20 short_line1) = Some 24"
  "py_float (slice 20 32 short_line1) = Some (Fin 1)"
  "strip (slice 2 7 short_line1) = ''25544''"
  "strip (slice 9 17 short_line1) = ''98067A''"
  by (simp_all add: short_line1_def string_eval number_eval)

lemma short_line2_fields:
  "py_float (slice 52 63 short_line2) = Some (Fin 15)"
  "py_float (''0.'' @ slice 26 33 short_line2) = Some (Fin 0.0006703)"
  "py_float (slice 8 16 short_line2) = Some (Fin 51.64)"
  by (simp_all add: short_line2_def string_eval number_eval)

lemma midnight_2024:
  "epoch_date (resolve_epoch_year 24) (Fin 1) = Inr \<lparr>ordinal = 738886, usec = 0\<rparr>"
  by (simp add: date_eval)

lemma iso_midnight: "isoformat \<lparr>ordinal = 738886, usec = 0\<rparr> = ''2024-01-01T00:00:00''"
  by code_simp

lemma short_lengths: "length short_line1 = 23" "length short_line2 = 54"
  by (simp_all add: short_line1_def short_line2_def)

lemma short_lines: "split_nl (strip short_tle) = [iss_name, short_line1, short_line2]"
  by code_simp

lemma short_strip: "strip short_line1 = short_line1" "strip short_line2 = short_line2"
  by code_simp+

lemma overflow_line1_fields:
  "py_int (slice 18 20 overflow_line1) = Some 24"
  "py_float (slice 20 32 overflow_line1) = Some (Fin 9999999)"
  by (simp_all add: overflow_line1_def string_eval number_eval)

lemma overflow_epoch: "epoch_date (resolve_epoch_year 24) (Fin 9999999) = Inl OverflowError"
  by (simp add: date_eval)

lemma overflow_triplet: "parse_triplet nm overflow_line1 iss_line2 = Inl OverflowError"
  by (simp add: parse_triplet_def overflow_line1_fields overflow_epoch)

lemma overflow_lines: "split_nl (strip overflow_tle) = [iss_name, overflow_line1, iss_line2]"
  by code_simp

lemma overflow_strip: "strip overflow_line1 = overflow_line1"
  by code_simp

lemma overflow_run: "parse_tle_run overflow_tle = ([], [(iss_name, OverflowError)])"
  by (simp add: single_group[OF overflow_lines iss_strip(1) overflow_strip iss_strip(3)]
        overflow_triplet)

lemma nineteen_length: "length nineteen_line1 = 19"
  by (simp add: nineteen_line1_def)

subsection \<open>Rounding for display\<close>

lemma round_to_500: "fround1 (Fin 499.96) = Fin 500"
  by (simp add: round_half_even_def)

lemma risk_before_rounding:
  "so_altitude (to_space_object now (sat\<lparr>altitude := Fin 499.96\<rparr>)) = Fin 500 \<and>
   so_riskLevel (to_space_object now (sat\<lparr>altitude := Fin 499.96\<rparr>)) = ''high''"
  by (simp add: to_space_object_def risk_level_def round_half_even_def)

section \<open>The claims\<close>

text \<open>
  C1. A group whose mean motion is zero or negative is still to give a record, with a
  period of 0 and an altitude of 0, and no division error. The period is guarded so, but
  the altitude formula is not: at a mean motion of zero it divides by zero, the exception
  is caught with all the others, and the group gives a report and no record.
\<close>

theorem zero_mean_motion_excluded:
  "parse_tle_run zero_tle = ([], [(iss_name, ZeroDivisionError)])"
  by (rule zero_run)

text \<open>
  C2, as amended. The two element lines kept in a record are the second and third line of
  the group the record is parsed from, with the white space at both ends removed, not the
  lines as they stand in the input.
\<close>

theorem raw_lines_stripped:
  "sat \<in> set (parse_tle_data tle_data) \<Longrightarrow>
   \<exists>(a, b, c) \<in> set (triplets (split_nl (strip tle_data))).
     parse_triplet (strip a) (strip b) (strip c) = Inr sat \<and>
     tle_line1 sat = strip b \<and> tle_line2 sat = strip c"
proof -
  assume "sat \<in> set (parse_tle_data tle_data)"
  then obtain a b c where mem: "(a, b, c) \<in> set (triplets (split_nl (strip tle_data)))"
    and p: "parse_triplet (strip a) (strip b) (strip c) = Inr sat"
    using parse_tle_data_member by blast
  from p have "tle_line1 sat = strip b" and "tle_line2 sat = strip c"
    by (auto simp: parse_triplet_Inr_iff)
  with mem p show ?thesis by (intro bexI[of _ "(a, b, c)"]) simp_all
qed

theorem raw_lines_stripped_witness:
  "iss_satellite \<in> set (parse_tle_data crlf_tle) \<and>
   (\<exists>(a, b, c) \<in> set (triplets (split_nl (strip crlf_tle))).
      parse_triplet (strip a) (strip b) (strip c) = Inr iss_satellite \<and>
      tle_line1 iss_satellite = strip b \<and> tle_line2 iss_satellite = strip c)"
proof -
  have m: "iss_satellite \<in> set (parse_tle_data crlf_tle)"
    by (simp add: parse_tle_data_def crlf_run)
  from raw_lines_stripped[OF m] m show ?thesis by simp
qed

text \<open>
  C2 as it is stated fails on a file with CR LF line ends: the second line of the input
  ends with a carriage return, the line kept in the record does not.
\<close>

theorem raw_lines_verbatim_counterexample:
  "parse_tle_data crlf_tle = [iss_satellite] \<and>
   tle_line1 iss_satellite \<noteq> split_nl crlf_tle ! 1"
proof -
  have "tle_line1 iss_satellite \<noteq> split_nl crlf_tle ! 1"
    unfolding crlf_second_line by (simp add: iss_satellite_def)
  then show ?thesis by (simp add: parse_tle_data_def crlf_run)
qed

text \<open>
  C3, as amended. For a record whose mean motion \<open>m\<close> is positive, the semi-major axis is
  \<open>(GM / (m * 2 * 3.14159 / 86400)\<^sup>2)\<close> to the power \<open>1/3\<close> with \<open>GM = 8681663\<close>, where
  the constant 3.14159 stands for \<open>\<pi>\<close>, and the altitude is that axis divided by 1000,
  minus 6371. The equations are those of the real numbers.
\<close>

theorem altitude_from_mean_motion:
  "sat \<in> set (parse_tle_data tle_data) \<Longrightarrow>
   py_float (slice 52 63 (tle_line2 sat)) = Some (Fin m) \<Longrightarrow> 0 < m \<Longrightarrow>
   semi_major_axis (Fin m) = Inr (Fin ((8681663 / (m * 2 * 3.14159 / 86400) ^ 2) powr (1 / 3))) \<and>
   altitude sat = Fin ((8681663 / (m * 2 * 3.14159 / 86400) ^ 2) powr (1 / 3) / 1000 - 6371)"
proof -
  assume mem: "sat \<in> set (parse_tle_data tle_data)"
    and mm: "py_float (slice 52 63 (tle_line2 sat)) = Some (Fin m)" and pos: "0 < m"
  from pos have sma: "semi_major_axis (Fin m) =
      Inr (Fin ((8681663 / (m * 2 * 3.14159 / 86400) ^ 2) powr (1 / 3)))"
    by (intro semi_major_axis_Fin) simp
  from mem obtain a b c where "parse_triplet (strip a) (strip b) (strip c) = Inr sat"
    using parse_tle_data_member by blast
  then obtain mm' sma' where "tle_line2 sat = strip c"
    and "py_float (slice 52 63 (strip c)) = Some mm'"
    and "semi_major_axis mm' = Inr sma'"
    and "altitude sat = fsub (fquot sma' (Fin 1000)) (Fin 6371)"
    by (auto simp: parse_triplet_Inr_iff)
  with mm sma have "altitude sat =
      fsub (fquot (Fin ((8681663 / (m * 2 * 3.14159 / 86400) ^ 2) powr (1 / 3))) (Fin 1000))
        (Fin 6371)"
    by simp
  with sma show ?thesis by simp
qed

theorem altitude_from_mean_motion_witness:
  "iss_satellite \<in> set (parse_tle_data iss_tle) \<and>
   py_float (slice 52 63 (tle_line2 iss_satellite)) = Some (Fin 15.5) \<and>
   (0 :: real) < 15.5 \<and>
   altitude iss_satellite =
     Fin ((8681663 / (15.5 * 2 * 3.14159 / 86400) ^ 2) powr (1 / 3) / 1000 - 6371)"
proof -
  have m: "iss_satellite \<in> set (parse_tle_data iss_tle)"
    by (simp add: parse_tle_data_def iss_run)
  have f: "py_float (slice 52 63 (tle_line2 iss_satellite)) = Some (Fin 15.5)"
    using iss_line2_fields(1) by (simp add: iss_satellite_def)
  have p: "(0 :: real) < 15.5" by simp
  from altitude_from_mean_motion[OF m f p] m f p show ?thesis by simp
qed

text \<open>
  C3 as it is stated, with exactly \<open>2\<pi>\<close>, fails on the sample feed: the altitude of its
  record is not the one the formula with \<open>\<pi>\<close> gives.
\<close>

theorem altitude_exact_pi_counterexample:
  "parse_tle_data iss_tle = [iss_satellite] \<and>
   py_float (slice 52 63 (tle_line2 iss_satellite)) = Some (Fin 15.5) \<and>
   altitude iss_satellite \<noteq>
     Fin ((8681663 / (15.5 * 2 * pi / 86400) ^ 2) powr (1 / 3) / 1000 - 6371)"
proof -
  have f: "py_float (slice 52 63 (tle_line2 iss_satellite)) = Some (Fin 15.5)"
    using iss_line2_fields(1) by (simp add: iss_satellite_def)
  have "(8681663 / (15.5 * 2 * 3.14159 / 86400) ^ 2) powr (1 / 3)
          \<noteq> (8681663 / (15.5 * 2 * pi / 86400) ^ 2) powr (1 / 3 :: real)"
    by (rule semi_major_axis_not_pi) simp
  then have "altitude iss_satellite \<noteq>
      Fin ((8681663 / (15.5 * 2 * pi / 86400) ^ 2) powr (1 / 3) / 1000 - 6371)"
    unfolding iss_satellite_def iss_altitude_def by simp
  with f show ?thesis by (simp add: parse_tle_data_def iss_run)
qed

text \<open>
  C4. The parser returns for every text. The lines are processed in groups of three; a
  group whose processing raises is reported under the name of its object and left out,
  the groups after it are processed all the same, and the result holds exactly the
  records of the groups that did not raise, in their order.
\<close>

theorem malformed_triplets_skipped:
  "parse_tle_run tle_data =
     (records (outcomes (triplets (split_nl (strip tle_data)))),
      reports (outcomes (triplets (split_nl (strip tle_data)))))"
  by (simp add: parse_tle_run_def parse_loop_triplets)

text \<open>The feed whose first group is cut short: one report, and the second group parsed.\<close>

theorem malformed_triplets_skipped_witness:
  "parse_tle_run mixed_tle = ([iss_satellite], [(''NOAA 19'', ValueError)])"
  using malformed_triplets_skipped[of mixed_tle]
  by (simp add: mixed_lines iss_strip truncated_strip iss_triplet truncated_triplet)

text \<open>
  C5. The country of a catalog entity is the name of the first entry of the table, taken
  in the order US, CIS, PRC, ESA, FR, JP, IN, CA, UK, whose code is a substring of the
  international designator; it is "Unknown" when no code is a substring.
\<close>

theorem country_first_match:
  "so_country (to_space_object now sat) =
     (case find (\<lambda>(code, country). sublist code (int_designator sat))
             [(''US'', ''USA''), (''CIS'', ''Russia''), (''PRC'', ''China''), (''ESA'', ''ESA''),
              (''FR'', ''France''), (''JP'', ''Japan''), (''IN'', ''India''), (''CA'', ''Canada''),
              (''UK'', ''UK'')] of
        None \<Rightarrow> ''Unknown''
      | Some (code, country) \<Rightarrow> country)"
proof -
  have "\<forall>(code, country) \<in> set country_codes. code \<noteq> []"
    by (simp add: country_codes_def)
  from find_country_first[OF this] show ?thesis
    by (simp add: to_space_object_def country_codes_def)
qed

text \<open>
  A designator holding both UK and US resolves to the entry checked first, and the
  designator of the sample object holds no code.
\<close>

theorem country_first_match_witness:
  "so_country (to_space_object ''2024-01-02T03:00:00''
                 (iss_satellite\<lparr>int_designator := ''UKUS''\<rparr>)) = ''USA'' \<and>
   so_country (to_space_object ''2024-01-02T03:00:00'' iss_satellite) = ''Unknown''"
  using country_first_match[of "''2024-01-02T03:00:00''"
          "iss_satellite\<lparr>int_designator := ''UKUS''\<rparr>"]
        country_first_match[of "''2024-01-02T03:00:00''" iss_satellite]
  by (simp add: iss_satellite_def sublist_Cons_right)

text \<open>
  C6, as amended. The risk level of a catalog entity is a function of the altitude of the
  record the entity is built from, as it is before the rounding: an altitude below 500
  gives "high", an altitude from 500 up to but not including 800 gives "medium", an
  altitude of 800 or more gives "low". The altitude the entity publishes is that altitude
  rounded to one decimal, and the risk level is not a function of it.
\<close>

theorem risk_level_thresholds:
  "altitude sat = Fin a \<Longrightarrow>
   so_riskLevel (to_space_object now sat) =
     (if a < 500 then ''high'' else if a < 800 then ''medium'' else ''low'') \<and>
   so_altitude (to_space_object now sat) = Fin (real_of_int (round_half_even (a * 10)) / 10)"
  by (simp add: to_space_object_def risk_level_def)

text \<open>The two boundaries: exactly 500 is "medium", exactly 800 is "low".\<close>

theorem risk_level_thresholds_witness:
  "altitude (iss_satellite\<lparr>altitude := Fin 500\<rparr>) = Fin 500 \<and>
   so_riskLevel (to_space_object ''2024-01-02T03:00:00'' (iss_satellite\<lparr>altitude := Fin 500\<rparr>))
     = ''medium'' \<and>
   altitude (iss_satellite\<lparr>altitude := Fin 800\<rparr>) = Fin 800 \<and>
   so_riskLevel (to_space_object ''2024-01-02T03:00:00'' (iss_satellite\<lparr>altitude := Fin 800\<rparr>))
     = ''low''"
proof -
  have h5: "altitude (iss_satellite\<lparr>altitude := Fin 500\<rparr>) = Fin 500"
    and h8: "altitude (iss_satellite\<lparr>altitude := Fin 800\<rparr>) = Fin 800"
    by simp_all
  from risk_level_thresholds[OF h5, of "''2024-01-02T03:00:00''"]
       risk_level_thresholds[OF h8, of "''2024-01-02T03:00:00''"] h5 h8
  show ?thesis by simp
qed

text \<open>
  C6 as it is stated, of the altitude of the catalog entity, fails: a record at 499.96
  gives an entity that publishes the altitude 500.0 with the risk level "high", and a
  record at 500 gives an entity that publishes the same altitude with the risk level
  "medium".
\<close>

theorem risk_level_published_counterexample:
  "so_altitude (to_space_object ''2024-01-02T03:00:00'' (iss_satellite\<lparr>altitude := Fin 499.96\<rparr>))
     = Fin 500 \<and>
   so_riskLevel (to_space_object ''2024-01-02T03:00:00'' (iss_satellite\<lparr>altitude := Fin 499.96\<rparr>))
     = ''high'' \<and>
   so_altitude (to_space_object ''2024-01-02T03:00:00'' (iss_satellite\<lparr>altitude := Fin 500\<rparr>))
     = Fin 500 \<and>
   so_riskLevel (to_space_object ''2024-01-02T03:00:00'' (iss_satellite\<lparr>altitude := Fin 500\<rparr>))
     = ''medium''"
  using risk_before_rounding[of "''2024-01-02T03:00:00''" iss_satellite]
  by (simp add: to_space_object_def risk_level_def round_half_even_def)

text \<open>
  C7. The two digits \<open>y\<close> of the epoch year stand for the year \<open>2000 + y\<close> when \<open>y < 57\<close>
  and for \<open>1900 + y\<close> otherwise: the epoch of a record is the first of January of that
  year, plus the epoch day less one.
\<close>

theorem epoch_year_pivot:
  "sat \<in> set (parse_tle_data tle_data) \<Longrightarrow>
   \<exists>y d dt. py_int (slice 18 20 (tle_line1 sat)) = Some y \<and>
            py_float (slice 20 32 (tle_line1 sat)) = Some d \<and>
            epoch_date (if y < 57 then 2000 + y else 1900 + y) d = Inr dt \<and>
            epoch sat = isoformat dt"
proof -
  assume "sat \<in> set (parse_tle_data tle_data)"
  then obtain a b c where "parse_triplet (strip a) (strip b) (strip c) = Inr sat"
    using parse_tle_data_member by blast
  then obtain y d dt where "tle_line1 sat = strip b"
    and "py_int (slice 18 20 (strip b)) = Some y"
    and "py_float (slice 20 32 (strip b)) = Some d"
    and "epoch_date (resolve_epoch_year y) d = Inr dt"
    and "epoch sat = isoformat dt"
    by (auto simp: parse_triplet_Inr_iff)
  moreover have "resolve_epoch_year y = (if y < 57 then 2000 + y else 1900 + y)"
    by (simp add: resolve_epoch_year_def)
  ultimately show ?thesis by auto
qed

text \<open>The years 24, 99, 56 and 57 give epochs in 2024, 1999, 2056 and 1957.\<close>

theorem epoch_year_pivot_witness:
  "iss_satellite\<lparr>epoch := ''1957-01-01T12:00:00'', tle_line1 := year_line1 ''57''\<rparr>
     \<in> set (parse_tle_data (year_tle ''57'')) \<and>
   map epoch (parse_tle_data (year_tle ''24'')) = [''2024-01-01T12:00:00''] \<and>
   map epoch (parse_tle_data (year_tle ''99'')) = [''1999-01-01T12:00:00''] \<and>
   map epoch (parse_tle_data (year_tle ''56'')) = [''2056-01-01T12:00:00''] \<and>
   map epoch (parse_tle_data (year_tle ''57'')) = [''1957-01-01T12:00:00'']"
proof -
  have m: "iss_satellite\<lparr>epoch := ''1957-01-01T12:00:00'', tle_line1 := year_line1 ''57''\<rparr>
      \<in> set (parse_tle_data (year_tle ''57''))"
    by (simp add: year_runs)
  from epoch_year_pivot[OF m] m show ?thesis by (simp add: year_runs)
qed

text \<open>
  C8. The class of a record is "debris" exactly when its name has one of the tokens deb,
  debris, r/b, rocket as a substring, whatever the case of the letters of the name, and
  "satellite" otherwise.
\<close>

theorem debris_classification:
  "sat \<in> set (parse_tle_data tle_data) \<Longrightarrow>
   type sat =
     (if \<exists>tok \<in> set [''deb'', ''debris'', ''r/b'', ''rocket''].
           \<exists>w. sublist w (name sat) \<and> lower w = tok
      then ''debris'' else ''satellite'')"
proof -
  assume "sat \<in> set (parse_tle_data tle_data)"
  then obtain a b c where "parse_triplet (strip a) (strip b) (strip c) = Inr sat"
    using parse_tle_data_member by blast
  then have "name sat = strip a"
    and "type sat = (if is_debris (strip a) then ''debris'' else ''satellite'')"
    by (auto simp: parse_triplet_Inr_iff)
  then show ?thesis by (simp only: is_debris_iff)
qed

text \<open>COSMOS 2251 DEBRIS is debris, ISS (ZARYA) is a satellite.\<close>

theorem debris_classification_witness:
  "iss_satellite \<in> set (parse_tle_data pair_tle) \<and>
   map (\<lambda>sat. (name sat, type sat)) (parse_tle_data pair_tle) =
     [(''COSMOS 2251 DEBRIS'', ''debris''), (''ISS (ZARYA)'', ''satellite'')]"
proof -
  have m: "iss_satellite \<in> set (parse_tle_data pair_tle)"
    by (simp add: parse_tle_data_def pair_run)
  from debris_classification[OF m] m show ?thesis
    by (simp add: parse_tle_data_def pair_run iss_satellite_def)
qed

text \<open>
  C10, as amended. The length of a line is never checked, and a field cut short by the end
  of its line is used as it is. Whatever the lengths of the two lines, a group gives a
  record, computed from the fields as they are cut, as soon as the epoch year, the epoch
  day, the mean motion, the eccentricity and the inclination convert to numbers, the epoch
  is a date the calendar has, and the mean motion is not zero. A first line of 20
  characters or fewer never gives a record: its epoch day is empty.
\<close>

theorem short_lines_truncated:
  "(py_int (slice 18 20 line1) = Some yy \<and>
    py_float (slice 20 32 line1) = Some ed \<and>
    epoch_date (resolve_epoch_year yy) ed = Inr dt \<and>
    py_float (slice 52 63 line2) = Some mm \<and> mm \<noteq> Fin 0 \<and>
    py_float (''0.'' @ slice 26 33 line2) = Some ecc \<and>
    py_float (slice 8 16 line2) = Some incl \<longrightarrow>
    parse_triplet nm line1 line2 =
      Inr \<lparr>name = nm, norad_id = strip (slice 2 7 line1),
           int_designator = strip (slice 9 17 line1),
           epoch = isoformat dt, period_minutes = period_of mm, inclination = incl,
           eccentricity = ecc, type = (if is_debris nm then ''debris'' else ''satellite''),
           altitude = fsub (fquot (fcbrt (fquot (Fin 8681663)
               (fsquare (fquot (fmul (fmul mm (Fin 2)) (Fin 3.14159)) (Fin 86400)))))
               (Fin 1000)) (Fin 6371),
           tle_line1 = line1, tle_line2 = line2\<rparr>) \<and>
   (length line1 \<le> 20 \<longrightarrow> parse_triplet nm line1 line2 = Inl ValueError)"
  using parse_triplet_emits[of line1 yy ed dt line2 mm ecc incl nm]
    parse_triplet_no_epoch_day[of line1 nm line2]
  by blast

text \<open>
  A first line of 23 characters and a second of 54 give a record; a first line of 19
  characters gives none.
\<close>

theorem short_lines_truncated_witness:
  "length short_line1 = 23 \<and> length short_line2 = 54 \<and>
   parse_tle_data short_tle = [short_satellite] \<and>
   length nineteen_line1 = 19 \<and>
   parse_triplet iss_name nineteen_line1 iss_line2 = Inl ValueError"
proof -
  have nz: "Fin 15 \<noteq> Fin 0" by simp
  note t = short_lines_truncated[where ?line1.0 = short_line1 and ?line2.0 = short_line2
      and yy = 24 and ed = "Fin 1" and dt = "\<lparr>ordinal = 738886, usec = 0\<rparr>"
      and mm = "Fin 15" and ecc = "Fin 0.0006703" and incl = "Fin 51.64" and nm = iss_name]
  from t short_line1_fields(1,2) midnight_2024 short_line2_fields nz
  have "parse_triplet iss_name short_line1 short_line2 =
      Inr \<lparr>name = iss_name, norad_id = strip (slice 2 7 short_line1),
           int_designator = strip (slice 9 17 short_line1),
           epoch = isoformat \<lparr>ordinal = 738886, usec = 0\<rparr>, period_minutes = period_of (Fin 15),
           inclination = Fin 51.64, eccentricity = Fin 0.0006703,
           type = (if is_debris iss_name then ''debris'' else ''satellite''),
           altitude = fsub (fquot (fcbrt (fquot (Fin 8681663)
               (fsquare (fquot (fmul (fmul (Fin 15) (Fin 2)) (Fin 3.14159)) (Fin 86400)))))
               (Fin 1000)) (Fin 6371),
           tle_line1 = short_line1, tle_line2 = short_line2\<rparr>"
    by blast
  then have "parse_triplet iss_name short_line1 short_line2 = Inr short_satellite"
    unfolding short_line1_fields iso_midnight
    by (simp add: iss_not_debris period_of_def) (simp add: short_satellite_def iss_name_def)
  then have r: "parse_tle_data short_tle = [short_satellite]"
    by (simp add: parse_tle_data_def single_group[OF short_lines iss_strip(1) short_strip])
  have "length nineteen_line1 \<le> 20" by (simp add: nineteen_length)
  with short_lines_truncated[where ?line1.0 = nineteen_line1 and nm = iss_name
      and ?line2.0 = iss_line2]
  have "parse_triplet iss_name nineteen_line1 iss_line2 = Inl ValueError" by blast
  with r show ?thesis by (simp add: short_lengths nineteen_length)
qed

text \<open>
  C10 as it is stated fails on a first line cut after 27 characters: every field of the
  group converts to a number, and still the group gives no record, because the epoch day
  left by the cut, 9999999, leads past the last year of the calendar.
\<close>

theorem short_lines_conversion_counterexample:
  "length overflow_line1 = 27 \<and>
   py_int (slice 18 20 overflow_line1) = Some 24 \<and>
   py_float (slice 20 32 overflow_line1) = Some (Fin 9999999) \<and>
   py_float (slice 52 63 iss_line2) = Some (Fin 15.5) \<and>
   py_float (''0.'' @ slice 26 33 iss_line2) = Some (Fin 0.0006703) \<and>
   py_float (slice 8 16 iss_line2) = Some (Fin 51.64) \<and>
   parse_tle_run overflow_tle = ([], [(iss_name, OverflowError)])"
  using overflow_line1_fields iss_line2_fields overflow_run
  by (simp add: overflow_line1_def)

end
